theory Spec2Isabelle
  imports Complex_Main "HOL-Library.Char_ord" "HOL-Library.List_Lexorder" "HOL-Library.Sublist"
    "HOL-Library.Word"
begin

section \<open>Python values, exceptions and built-ins\<close>

text \<open>
  The scoring endpoints of \<^verbatim>\<open>src/api/app.py\<close> are embedded as pure functions.
  Python floats are modelled as reals: the program only adds, multiplies, divides and
  compares them, and the comparisons of a float with a literal are exact.
  Exceptions are values of \<open>py_error\<close>; a computation that may raise returns
  \<open>py_error + 'a\<close>.
\<close>

datatype py_error = ValueError | TypeError | OverflowError | ZeroDivisionError | KeyError string

text \<open>Sequencing: the first exception raised ends the computation.\<close>

definition bind_result :: "'e + 'a \<Rightarrow> ('a \<Rightarrow> 'e + 'b) \<Rightarrow> 'e + 'b" where
  "bind_result x f = (case x of Inl e \<Rightarrow> Inl e | Inr v \<Rightarrow> f v)"

text \<open>A scalar of the JSON request body; the body itself is a dict of such scalars.\<close>

datatype json = JNull | JBool bool | JInt int | JFloat real | JStr string

type_synonym payload = "string \<rightharpoonup> json"

text \<open>\<^verbatim>\<open>data.get(k, d)\<close> and \<^verbatim>\<open>data.get(k)\<close> (\<open>None\<close> when the key is absent).\<close>

definition dict_get :: "payload \<Rightarrow> string \<Rightarrow> json \<Rightarrow> json" where
  "dict_get data k d = (case data k of None \<Rightarrow> d | Some v \<Rightarrow> v)"

text \<open>
  What the program takes from the interpreter and is not in the repository: reading a
  number from a \<^verbatim>\<open>str\<close> (\<open>None\<close> is Python's \<^verbatim>\<open>ValueError\<close>) and
  \<^verbatim>\<open>round(x, 4)\<close>.
\<close>

record builtins =
  float_of_str :: "string \<Rightarrow> real option"
  int_of_str :: "string \<Rightarrow> int option"
  round4 :: "real \<Rightarrow> real"

text \<open>
  \<^verbatim>\<open>float(v)\<close>. An integer too large for a double raises \<^verbatim>\<open>OverflowError\<close>: the
  largest double is \<open>2 ^ 1024 - 2 ^ 971\<close>, and an integer rounds to it below
  \<open>2 ^ 1024 - 2 ^ 970\<close>.
\<close>

fun py_float :: "'b builtins_scheme \<Rightarrow> json \<Rightarrow> py_error + real" where
  "py_float B JNull = Inl TypeError"
| "py_float B (JBool b) = Inr (if b then 1 else 0)"
| "py_float B (JInt n) =
     (if \<bar>n\<bar> < 2 ^ 1024 - 2 ^ 970 then Inr (of_int n) else Inl OverflowError)"
| "py_float B (JFloat r) = Inr r"
| "py_float B (JStr s) = (case float_of_str B s of None \<Rightarrow> Inl ValueError | Some r \<Rightarrow> Inr r)"

text \<open>\<^verbatim>\<open>int(v)\<close>: a float is truncated towards zero.\<close>

fun py_int :: "'b builtins_scheme \<Rightarrow> json \<Rightarrow> py_error + int" where
  "py_int B JNull = Inl TypeError"
| "py_int B (JBool b) = Inr (if b then 1 else 0)"
| "py_int B (JInt n) = Inr n"
| "py_int B (JFloat r) = Inr (if 0 \<le> r then \<lfloor>r\<rfloor> else \<lceil>r\<rceil>)"
| "py_int B (JStr s) = (case int_of_str B s of None \<Rightarrow> Inl ValueError | Some n \<Rightarrow> Inr n)"

text \<open>\<^verbatim>\<open>x == 'text'\<close> and \<^verbatim>\<open>x == 0\<close> for the result \<open>x\<close> of \<^verbatim>\<open>data.get(k)\<close>.\<close>

fun py_eq_str :: "json option \<Rightarrow> string \<Rightarrow> bool" where
  "py_eq_str (Some (JStr s)) t = (s = t)"
| "py_eq_str _ t = False"

fun py_eq_zero :: "json option \<Rightarrow> bool" where
  "py_eq_zero (Some (JInt n)) = (n = 0)"
| "py_eq_zero (Some (JFloat r)) = (r = 0)"
| "py_eq_zero (Some (JBool b)) = (\<not> b)"
| "py_eq_zero _ = False"

text \<open>\<^verbatim>\<open>a / b\<close> on Python floats raises on a zero divisor.\<close>

definition py_truediv :: "real \<Rightarrow> real \<Rightarrow> py_error + real" where
  "py_truediv a b = (if b = 0 then Inl ZeroDivisionError else Inr (a / b))"

text \<open>
  The same division on pandas columns raises nothing: a zero divisor gives
  \<^verbatim>\<open>inf\<close> or \<^verbatim>\<open>NaN\<close>, written \<open>None\<close> here.
\<close>

definition pd_truediv :: "real \<Rightarrow> real \<Rightarrow> real option" where
  "pd_truediv a b = (if b = 0 then None else Some (a / b))"

section \<open>scikit-learn's LabelEncoder\<close>

text \<open>
  \<^verbatim>\<open>fit\<close> stores the distinct labels in sorted order (\<^verbatim>\<open>numpy.unique\<close>; strings
  compare by code point). \<^verbatim>\<open>transform\<close> gives the position of a label among them and
  raises \<^verbatim>\<open>ValueError\<close> on a label that was not fitted.
\<close>

definition label_encoder_fit :: "string list \<Rightarrow> string list" where
  "label_encoder_fit ys = sort (remdups ys)"

definition class_index :: "string list \<Rightarrow> string \<Rightarrow> nat" where
  "class_index classes y = length (takeWhile (\<lambda>c. c \<noteq> y) classes)"

definition label_encoder_transform :: "string list \<Rightarrow> string \<Rightarrow> py_error + nat" where
  "label_encoder_transform classes y =
     (if y \<in> set classes then Inr (class_index classes y) else Inl ValueError)"

definition label_encoder_fit_transform :: "string list \<Rightarrow> nat list" where
  "label_encoder_fit_transform ys = map (class_index (label_encoder_fit ys)) ys"

text \<open>
  A Python string put into a numpy array of fixed-width strings loses its trailing
  NUL characters.
\<close>

definition numpy_str :: "string \<Rightarrow> string" where
  "numpy_str s = rev (dropWhile (\<lambda>c. c = CHR 0x00) (rev s))"

text \<open>
  \<^verbatim>\<open>encoder.fit(vocab); encoder.transform([v])[0]\<close> for a request value \<open>v\<close>: both
  lists become numpy arrays of strings. A scalar that is not a string is cast to its
  text, which is in none of the vocabularies below, so it is an unseen label.
\<close>

definition fit_then_transform :: "string list \<Rightarrow> json \<Rightarrow> py_error + nat" where
  "fit_then_transform vocab v =
     (case v of
        JStr s \<Rightarrow> label_encoder_transform (label_encoder_fit vocab) (numpy_str s)
      | _ \<Rightarrow> Inl ValueError)"

section \<open>Single-record scoring: \<^verbatim>\<open>api_predict\<close>\<close>

text \<open>
  A row of the feature frame: the columns in their order, each with its value.
  \<open>None\<close> is a cell that is not a finite number.
\<close>

type_synonym features = "(string \<times> real option) list"

text \<open>
  The loaded model, of which only \<^verbatim>\<open>predict_proba(X)[:, 1]\<close> is used: the churn
  probabilities of the rows of \<open>X\<close>, or \<open>None\<close> when it raises.
\<close>

type_synonym classifier = "features list \<Rightarrow> real list option"

text \<open>
  The values extracted from the request (lines 239 to 248). The three \<^verbatim>\<open>data.get\<close>
  of the categorical fields raise nothing, so they are written into the result.
\<close>

record request_fields =
  tenure :: real
  monthly_charges :: real
  total_charges :: real
  contract_type :: json
  payment_method :: json
  internet_service :: json
  streaming_tv :: int
  streaming_movies :: int
  tech_support :: int
  online_security :: int

definition extract_fields :: "'b builtins_scheme \<Rightarrow> payload \<Rightarrow> py_error + request_fields" where
  "extract_fields B data =
     bind_result (py_float B (dict_get data ''tenure'' (JInt 0))) (\<lambda>t.
     bind_result (py_float B (dict_get data ''monthly_charges'' (JInt 0))) (\<lambda>mc.
     bind_result (py_float B (dict_get data ''total_charges'' (JInt 0))) (\<lambda>tc.
     bind_result (py_int B (dict_get data ''streaming_tv'' (JInt 0))) (\<lambda>stv.
     bind_result (py_int B (dict_get data ''streaming_movies'' (JInt 0))) (\<lambda>smv.
     bind_result (py_int B (dict_get data ''tech_support'' (JInt 0))) (\<lambda>ts.
     bind_result (py_int B (dict_get data ''online_security'' (JInt 0))) (\<lambda>os.
       Inr \<lparr>tenure = t, monthly_charges = mc, total_charges = tc,
            contract_type = dict_get data ''contract_type'' (JStr ''Month-to-Month''),
            payment_method = dict_get data ''payment_method'' (JStr ''Electronic check''),
            internet_service = dict_get data ''internet_service'' (JStr ''Fiber optic''),
            streaming_tv = stv, streaming_movies = smv, tech_support = ts,
            online_security = os\<rparr>)))))))"

text \<open>The three encoders of lines 272 to 300, each with its \<^verbatim>\<open>except ValueError\<close>.\<close>

definition contract_encoded :: "json \<Rightarrow> nat" where
  "contract_encoded v =
     (case fit_then_transform [''Month-to-Month'', ''One year'', ''Two year''] v of
        Inr c \<Rightarrow> c | Inl e \<Rightarrow> 0)"

definition payment_encoded :: "json \<Rightarrow> nat" where
  "payment_encoded v =
     (case fit_then_transform
             [''Electronic check'', ''Mailed check'', ''Bank transfer'', ''Credit card''] v of
        Inr c \<Rightarrow> c | Inl e \<Rightarrow> 0)"

definition internet_encoded :: "json \<Rightarrow> nat" where
  "internet_encoded v =
     (case fit_then_transform [''DSL'', ''Fiber optic'', ''No''] v of
        Inr c \<Rightarrow> c | Inl e \<Rightarrow> 1)"

text \<open>Feature engineering, lines 263 to 317: the one-row frame handed to the model.\<close>

definition engineer_features :: "request_fields \<Rightarrow> py_error + features" where
  "engineer_features r =
     (case py_truediv (total_charges r) (tenure r + 1) of Inl e \<Rightarrow> Inl e
      | Inr avg_monthly_charge \<Rightarrow>
        let contract_value = monthly_charges r * tenure r;
            services_count = streaming_tv r + streaming_movies r + tech_support r
                             + online_security r
        in Inr [(''tenure'', Some (tenure r)),
                (''monthly_charges'', Some (monthly_charges r)),
                (''total_charges'', Some (total_charges r)),
                (''contract_encoded'', Some (real (contract_encoded (contract_type r)))),
                (''payment_encoded'', Some (real (payment_encoded (payment_method r)))),
                (''internet_encoded'', Some (real (internet_encoded (internet_service r)))),
                (''streaming_tv'', Some (of_int (streaming_tv r))),
                (''streaming_movies'', Some (of_int (streaming_movies r))),
                (''tech_support'', Some (of_int (tech_support r))),
                (''online_security'', Some (of_int (online_security r))),
                (''avg_monthly_charge'', Some avg_monthly_charge),
                (''contract_value'', Some contract_value),
                (''services_count'', Some (of_int services_count))])"

text \<open>Risk level and colour, lines 359 to 370.\<close>

definition risk_level :: "real \<Rightarrow> string \<times> string" where
  "risk_level churn_prob =
     (if churn_prob < 0.3 then (''Low'', ''green'')
      else if churn_prob < 0.7 then (''Medium'', ''orange'')
      else (''High'', ''red''))"

text \<open>
  The recommendation texts of \<^verbatim>\<open>get_recommendations\<close>, in the order of the source
  (each text starts with a pictograph, left out of \<open>recommendation_text\<close>).
\<close>

datatype recommendation =
    HighChurnRisk | OfferLoyaltyDiscount | SchedulePersonalCall
  | MonitorClosely | SendReengagementEmail | OfferUpgradeIncentives
  | CustomerSatisfied | ContinueMonitoring | ConsiderReferral
  | EncourageAnnualContract | PromoteTechSupport

fun recommendation_text :: "recommendation \<Rightarrow> string" where
  "recommendation_text HighChurnRisk = ''High churn risk - Immediate intervention required''"
| "recommendation_text OfferLoyaltyDiscount = ''Offer loyalty discount or premium features''"
| "recommendation_text SchedulePersonalCall = ''Schedule personal call from retention team''"
| "recommendation_text MonitorClosely = ''Monitor closely for changes in usage patterns''"
| "recommendation_text SendReengagementEmail = ''Send targeted re-engagement email campaign''"
| "recommendation_text OfferUpgradeIncentives = ''Offer upgrade incentives or bundled services''"
| "recommendation_text CustomerSatisfied = ''Customer appears satisfied''"
| "recommendation_text ContinueMonitoring = ''Continue monitoring engagement metrics''"
| "recommendation_text ConsiderReferral = ''Consider for referral program''"
| "recommendation_text EncourageAnnualContract = ''Encourage upgrade to annual contract''"
| "recommendation_text PromoteTechSupport = ''Promote tech support subscription''"

definition get_recommendations :: "real \<Rightarrow> payload \<Rightarrow> recommendation list" where
  "get_recommendations churn_prob customer_data =
     (if churn_prob > 0.7 then [HighChurnRisk, OfferLoyaltyDiscount, SchedulePersonalCall]
      else if churn_prob > 0.4 then [MonitorClosely, SendReengagementEmail, OfferUpgradeIncentives]
      else [CustomerSatisfied, ContinueMonitoring, ConsiderReferral])
     @ (if py_eq_str (customer_data ''contract_type'') ''Month-to-Month''
        then [EncourageAnnualContract] else [])
     @ (if py_eq_zero (customer_data ''tech_support'') then [PromoteTechSupport] else [])"

text \<open>The predictions table and the insert of lines 345 to 356, which may raise.\<close>

record prediction_row =
  row_user_id :: nat
  row_features :: payload
  row_churn_probability :: real
  row_churn_prediction :: int

record db =
  predictions_table :: "prediction_row list"
  db_fault :: bool

datatype db_error = DatabaseError

definition insert_prediction :: "db \<Rightarrow> prediction_row \<Rightarrow> db_error + db" where
  "insert_prediction d row =
     (if db_fault d then Inl DatabaseError
      else Inr (d\<lparr>predictions_table := predictions_table d @ [row]\<rparr>))"

text \<open>
  The JSON replies. The \<^verbatim>\<open>error\<close> field of a failure is a fixed text, or is built
  from the text of the exception caught.
\<close>

datatype error_body =
    ModelNotLoaded
  | InvalidInputData py_error
  | ModelPredictionFailed
  | StrOf py_error
  | StrOfModelError

record score_result =
  churn_probability :: real
  churn_prediction :: int
  risk :: string
  color :: string
  recommendations :: "recommendation list"

datatype predict_response = Scored score_result | Failed nat error_body

text \<open>\<^verbatim>\<open>model.predict_proba(features)[0][1]\<close>, inside its \<^verbatim>\<open>try\<close>.\<close>

definition predict_one :: "classifier \<Rightarrow> features \<Rightarrow> real option" where
  "predict_one m fv = (case m [fv] of Some (p # ps) \<Rightarrow> Some p | _ \<Rightarrow> None)"

definition api_predict ::
  "'b builtins_scheme \<Rightarrow> classifier option \<Rightarrow> nat \<Rightarrow> payload \<Rightarrow> db \<Rightarrow> predict_response \<times> db" where
  "api_predict B model uid data d =
     (case model of None \<Rightarrow> (Failed 500 ModelNotLoaded, d)
      | Some m \<Rightarrow>
        (case extract_fields B data of
           Inl e \<Rightarrow>
             (if e = ValueError \<or> e = TypeError then (Failed 400 (InvalidInputData e), d)
              else (Failed 400 (StrOf e), d))
         | Inr r \<Rightarrow>
           (case engineer_features r of Inl e \<Rightarrow> (Failed 400 (StrOf e), d)
            | Inr fv \<Rightarrow>
              (case predict_one m fv of None \<Rightarrow> (Failed 500 ModelPredictionFailed, d)
               | Some churn_prob \<Rightarrow>
                 let pred = (if churn_prob > 0.5 then 1 else 0);
                     d' = (case insert_prediction d
                                  \<lparr>row_user_id = uid, row_features = data,
                                   row_churn_probability = churn_prob,
                                   row_churn_prediction = pred\<rparr> of
                             Inl db_error \<Rightarrow> d | Inr d1 \<Rightarrow> d1)
                 in (Scored \<lparr>churn_probability = round4 B churn_prob,
                             churn_prediction = pred,
                             risk = fst (risk_level churn_prob),
                             color = snd (risk_level churn_prob),
                             recommendations = get_recommendations churn_prob data\<rparr>,
                     d')))))"

section \<open>Batch scoring: \<^verbatim>\<open>api_batch_predict\<close>\<close>

text \<open>
  A number of a numeric column. \<^verbatim>\<open>pandas.read_csv\<close> gives a column of integers the
  type \<^verbatim>\<open>int64\<close>, or \<^verbatim>\<open>uint64\<close> when a value needs it, and a column with a float
  the type \<^verbatim>\<open>float64\<close>. Integer arithmetic wraps around silently.
\<close>

datatype num = I64 "64 word" | U64 "64 word" | F64 real

fun num_value :: "num \<Rightarrow> real" where
  "num_value (I64 w) = real_of_int (sint w)"
| "num_value (U64 w) = real_of_int (uint w)"
| "num_value (F64 x) = x"

text \<open>\<^verbatim>\<open>x + 1\<close> keeps the type of the column.\<close>

fun add_one :: "num \<Rightarrow> num" where
  "add_one (I64 w) = I64 (w + 1)"
| "add_one (U64 w) = U64 (w + 1)"
| "add_one (F64 x) = F64 (x + 1)"

text \<open>
  \<^verbatim>\<open>x + y\<close> and \<^verbatim>\<open>x * y\<close> of two columns: two columns of one integer type stay in
  it; every other pair of types is promoted to \<^verbatim>\<open>float64\<close>.
\<close>

fun num_add :: "num \<Rightarrow> num \<Rightarrow> num" where
  "num_add (I64 a) (I64 b) = I64 (a + b)"
| "num_add (U64 a) (U64 b) = U64 (a + b)"
| "num_add a b = F64 (num_value a + num_value b)"

fun num_mul :: "num \<Rightarrow> num \<Rightarrow> num" where
  "num_mul (I64 a) (I64 b) = I64 (a * b)"
| "num_mul (U64 a) (U64 b) = U64 (a * b)"
| "num_mul a b = F64 (num_value a * num_value b)"

text \<open>\<^verbatim>\<open>x / y\<close> is the division of floats, whatever the types.\<close>

definition num_truediv :: "num \<Rightarrow> num \<Rightarrow> real option" where
  "num_truediv a b = pd_truediv (num_value a) (num_value b)"

text \<open>
  The uploaded table as \<^verbatim>\<open>pandas.read_csv\<close> returns it: the names of its columns and
  its rows. The seven numeric columns hold numbers and the three categorical ones
  strings; all the cells of a column have one type; a cell of a column that the table
  does not have is never read. A request without a file, or with a file that is not a
  table, is answered before this point.
\<close>

record csv_row =
  csv_tenure :: num
  csv_monthly_charges :: num
  csv_total_charges :: num
  csv_contract_type :: string
  csv_payment_method :: string
  csv_internet_service :: string
  csv_streaming_tv :: num
  csv_streaming_movies :: num
  csv_tech_support :: num
  csv_online_security :: num

record data_frame =
  columns :: "string list"
  rows :: "csv_row list"

text \<open>\<^verbatim>\<open>df[name]\<close> raises \<^verbatim>\<open>KeyError(name)\<close> for a column the frame does not have.\<close>

definition getitem :: "data_frame \<Rightarrow> string \<Rightarrow> (csv_row \<Rightarrow> 'a) \<Rightarrow> py_error + 'a list" where
  "getitem df name cell =
     (if name \<in> set (columns df) then Inr (map cell (rows df)) else Inl (KeyError name))"


text \<open>\<^verbatim>\<open>X = df[feature_cols]\<close>, read row by row: \<open>n\<close> rows of the named columns.\<close>

definition select_rows :: "nat \<Rightarrow> (string \<times> real option list) list \<Rightarrow> features list" where
  "select_rows n cols = map (\<lambda>i. map (\<lambda>(name, col). (name, col ! i)) cols) [0..<n]"

text \<open>The numbers of a column as the model reads them.\<close>

definition as_floats :: "num list \<Rightarrow> real option list" where
  "as_floats col = map (\<lambda>x. Some (num_value x)) col"

text \<open>
  Feature engineering of the batch, lines 430 to 456. Python evaluates the operands of
  each expression from left to right, so the columns are looked up in this order.
\<close>

definition batch_features :: "data_frame \<Rightarrow> py_error + features list" where
  "batch_features df =
     bind_result (getitem df ''total_charges'' csv_total_charges) (\<lambda>tc.
     bind_result (getitem df ''tenure'' csv_tenure) (\<lambda>t.
     let avg_monthly_charge = map2 num_truediv tc (map add_one t) in
     bind_result (getitem df ''monthly_charges'' csv_monthly_charges) (\<lambda>mc.
     bind_result (getitem df ''tenure'' csv_tenure) (\<lambda>t'.
     let contract_value = map2 num_mul mc t' in
     bind_result (getitem df ''streaming_tv'' csv_streaming_tv) (\<lambda>stv.
     bind_result (getitem df ''streaming_movies'' csv_streaming_movies) (\<lambda>smv.
     bind_result (getitem df ''tech_support'' csv_tech_support) (\<lambda>ts.
     bind_result (getitem df ''online_security'' csv_online_security) (\<lambda>os.
     let services_count = map2 num_add (map2 num_add (map2 num_add stv smv) ts) os in
     bind_result (getitem df ''contract_type'' csv_contract_type) (\<lambda>ct.
     let contract_encoded = label_encoder_fit_transform ct in
     bind_result (getitem df ''payment_method'' csv_payment_method) (\<lambda>pm.
     let payment_encoded = label_encoder_fit_transform pm in
     bind_result (getitem df ''internet_service'' csv_internet_service) (\<lambda>isv.
     let internet_encoded = label_encoder_fit_transform isv in
     Inr (select_rows (length (rows df))
       [(''tenure'', as_floats t),
        (''monthly_charges'', as_floats mc),
        (''total_charges'', as_floats tc),
        (''contract_encoded'', map (\<lambda>c. Some (real c)) contract_encoded),
        (''payment_encoded'', map (\<lambda>c. Some (real c)) payment_encoded),
        (''internet_encoded'', map (\<lambda>c. Some (real c)) internet_encoded),
        (''streaming_tv'', as_floats stv),
        (''streaming_movies'', as_floats smv),
        (''tech_support'', as_floats ts),
        (''online_security'', as_floats os),
        (''avg_monthly_charge'', avg_monthly_charge),
        (''contract_value'', as_floats contract_value),
        (''services_count'', as_floats services_count)]))))))))))))"

text \<open>
  \<^verbatim>\<open>pandas.cut(x, bins, labels)\<close> with its defaults: the intervals are open on the left
  and closed on the right, the lowest edge is not included, and a value in no interval
  gets no label (\<^verbatim>\<open>NaN\<close>).
\<close>

fun pd_cut :: "real list \<Rightarrow> string list \<Rightarrow> real \<Rightarrow> string option" where
  "pd_cut (lo # hi # bins) (l # labels) x =
     (if lo < x \<and> x \<le> hi then Some l else pd_cut (hi # bins) labels x)"
| "pd_cut bins labels x = None"

definition batch_risk_level :: "real \<Rightarrow> string option" where
  "batch_risk_level p = pd_cut [0, 0.3, 0.7, 1.0] [''Low'', ''Medium'', ''High''] p"

record summary =
  total_customers :: nat
  high_risk :: nat
  medium_risk :: nat
  low_risk :: nat
  avg_churn_probability :: "real option"

text \<open>The summary of lines 469 to 475; the mean of no value is \<^verbatim>\<open>NaN\<close>.\<close>

definition batch_summary :: "nat \<Rightarrow> real list \<Rightarrow> summary" where
  "batch_summary n predictions =
     \<lparr>total_customers = n,
      high_risk = length (filter (\<lambda>p. p > 0.7) predictions),
      medium_risk = length (filter (\<lambda>p. p \<ge> 0.3 \<and> p \<le> 0.7) predictions),
      low_risk = length (filter (\<lambda>p. p < 0.3) predictions),
      avg_churn_probability =
        (if predictions = [] then None
         else Some (sum_list predictions / real (length predictions)))\<rparr>"

text \<open>
  A record of the reply: the uploaded row, the columns that feature engineering added
  and whose name does not end in \<^verbatim>\<open>_encoded\<close>, and the three columns of the result.
\<close>

record result_row =
  res_row :: csv_row
  res_derived :: features
  res_churn_probability :: real
  res_churn_prediction :: int
  res_risk_level :: "string option"

datatype batch_response = BatchScored summary "result_row list" | BatchFailed nat error_body

definition api_batch_predict :: "classifier option \<Rightarrow> data_frame \<Rightarrow> batch_response" where
  "api_batch_predict model df =
     (case model of None \<Rightarrow> BatchFailed 500 ModelNotLoaded
      | Some m \<Rightarrow>
        (case batch_features df of Inl e \<Rightarrow> BatchFailed 400 (StrOf e)
         | Inr X \<Rightarrow>
           (case m X of None \<Rightarrow> BatchFailed 400 StrOfModelError
            | Some predictions \<Rightarrow>
              if length predictions \<noteq> length (rows df) then BatchFailed 400 (StrOf ValueError)
              else BatchScored (batch_summary (length (rows df)) predictions)
                     (take 100
                        (map2 (\<lambda>(r, fv) p.
                                 \<lparr>res_row = r,
                                  res_derived =
                                    filter (\<lambda>(name, v). name \<in> set [''avg_monthly_charge'',
                                              ''contract_value'', ''services_count'']) fv,
                                  res_churn_probability = p,
                                  res_churn_prediction = (if p > 0.5 then 1 else 0),
                                  res_risk_level = batch_risk_level p\<rparr>)
                              (zip (rows df) X) predictions)))))"

text \<open>
  \<^verbatim>\<open>str(e)\<close> where the program decides it: a \<^verbatim>\<open>KeyError\<close> prints its key between
  single quotes. The text of the other exceptions is chosen by the libraries.
\<close>

fun py_str :: "py_error \<Rightarrow> string option" where
  "py_str (KeyError k) = Some (CHR 0x27 # k @ [CHR 0x27])"
| "py_str e = None"

section \<open>The specification's vocabulary\<close>

text \<open>
  The FeatureVector of the specification: thirteen fields in a fixed order, the last
  three derived from the others.
\<close>

definition feature_vector ::
  "real \<Rightarrow> real \<Rightarrow> real \<Rightarrow> real \<Rightarrow> real \<Rightarrow> real \<Rightarrow> real \<Rightarrow> real \<Rightarrow> real \<Rightarrow> real \<Rightarrow> features" where
  "feature_vector t mc tc ce pe ie stv smv ts os =
     [(''tenure'', Some t),
      (''monthly_charges'', Some mc),
      (''total_charges'', Some tc),
      (''contract_encoded'', Some ce),
      (''payment_encoded'', Some pe),
      (''internet_encoded'', Some ie),
      (''streaming_tv'', Some stv),
      (''streaming_movies'', Some smv),
      (''tech_support'', Some ts),
      (''online_security'', Some os),
      (''avg_monthly_charge'', Some (tc / (t + 1))),
      (''contract_value'', Some (mc * t)),
      (''services_count'', Some (stv + smv + ts + os))]"







text \<open>
  The ten required columns of an upload, in the order in which \<open>batch_features\<close>
  first looks each of them up.
\<close>

definition lookup_order :: "string list" where
  "lookup_order =
     [''total_charges'', ''tenure'', ''monthly_charges'', ''streaming_tv'',
      ''streaming_movies'', ''tech_support'', ''online_security'', ''contract_type'',
      ''payment_method'', ''internet_service'']"

section \<open>Sample inputs\<close>

text \<open>An interpreter that reads no number from a string and rounds nothing.\<close>

definition plain_builtins :: builtins where
  "plain_builtins =
     \<lparr>float_of_str = (\<lambda>s. None), int_of_str = (\<lambda>s. None), round4 = (\<lambda>x. x)\<rparr>"

text \<open>A model that gives every row the probability \<open>p\<close>, and one that gives the rows \<open>ps\<close>.\<close>

definition constant_model :: "real \<Rightarrow> classifier" where
  "constant_model p X = Some (map (\<lambda>fv. p) X)"

definition listed_model :: "real list \<Rightarrow> classifier" where
  "listed_model ps X = Some ps"


text \<open>What \<open>extract_fields\<close> gives for the empty request.\<close>

definition default_request :: request_fields where
  "default_request =
     \<lparr>tenure = 0, monthly_charges = 0, total_charges = 0,
      contract_type = JStr ''Month-to-Month'', payment_method = JStr ''Electronic check'',
      internet_service = JStr ''Fiber optic'', streaming_tv = 0, streaming_movies = 0,
      tech_support = 0, online_security = 0\<rparr>"

definition sample_row :: "num \<Rightarrow> num \<Rightarrow> num \<Rightarrow> csv_row" where
  "sample_row t mc tc =
     \<lparr>csv_tenure = t, csv_monthly_charges = mc, csv_total_charges = tc,
      csv_contract_type = ''Month-to-Month'', csv_payment_method = ''Electronic check'',
      csv_internet_service = ''Fiber optic'', csv_streaming_tv = I64 0,
      csv_streaming_movies = I64 1, csv_tech_support = I64 0, csv_online_security = I64 1\<rparr>"

text \<open>A table of three rows that has the required columns but those of \<open>missing\<close>.\<close>

definition sample_frame :: "string list \<Rightarrow> data_frame" where
  "sample_frame missing =
     \<lparr>columns = filter (\<lambda>c. c \<notin> set missing)
        [''tenure'', ''monthly_charges'', ''total_charges'', ''contract_type'',
         ''payment_method'', ''internet_service'', ''streaming_tv'', ''streaming_movies'',
         ''tech_support'', ''online_security''],
      rows = [sample_row (I64 0) (I64 20) (I64 100), sample_row (I64 1) (I64 20) (I64 20),
              sample_row (I64 60) (I64 20) (I64 720)]\<rparr>"


definition healthy_db :: db where
  "healthy_db = \<lparr>predictions_table = [], db_fault = False\<rparr>"

definition faulty_db :: db where
  "faulty_db = \<lparr>predictions_table = [], db_fault = True\<rparr>"

section \<open>The encoders\<close>

lemma fit_contract:
  "label_encoder_fit [''Month-to-Month'', ''One year'', ''Two year'']
   = [''Month-to-Month'', ''One year'', ''Two year'']"
  by (simp add: label_encoder_fit_def)

lemma fit_payment:
  "label_encoder_fit [''Electronic check'', ''Mailed check'', ''Bank transfer'', ''Credit card'']
   = [''Bank transfer'', ''Credit card'', ''Electronic check'', ''Mailed check'']"
  by (simp add: label_encoder_fit_def)

lemma fit_internet:
  "label_encoder_fit [''DSL'', ''Fiber optic'', ''No''] = [''DSL'', ''Fiber optic'', ''No'']"
  by (simp add: label_encoder_fit_def)

lemmas encoder_simps =
  contract_encoded_def payment_encoded_def internet_encoded_def
  fit_then_transform_def label_encoder_transform_def class_index_def numpy_str_def
  fit_contract fit_payment fit_internet

text \<open>
  C1, as the specification states it, fails: the payment encoder gives
  \<^verbatim>\<open>Electronic check\<close> the code 2, not the code 0 of its place in the listed
  vocabulary.
\<close>

theorem payment_code_not_enumeration_order:
  "payment_encoded (JStr ''Electronic check'') = 2 \<and>
   payment_encoded (JStr ''Electronic check'') \<noteq> 0"
  by (simp add: encoder_simps)

text \<open>
  C1, amended: on every single-record call the encoders give each value of the fixed
  vocabulary its position in the sorted vocabulary. For \<^verbatim>\<open>contract_type\<close> and
  \<^verbatim>\<open>internet_service\<close> this is the listed order; for \<^verbatim>\<open>payment_method\<close> it is
  Bank transfer 0, Credit card 1, Electronic check 2, Mailed check 3.
\<close>

theorem encoder_codes_sorted_vocabulary:
  "contract_encoded (JStr ''Month-to-Month'') = 0 \<and>
   contract_encoded (JStr ''One year'') = 1 \<and>
   contract_encoded (JStr ''Two year'') = 2 \<and>
   payment_encoded (JStr ''Bank transfer'') = 0 \<and>
   payment_encoded (JStr ''Credit card'') = 1 \<and>
   payment_encoded (JStr ''Electronic check'') = 2 \<and>
   payment_encoded (JStr ''Mailed check'') = 3 \<and>
   internet_encoded (JStr ''DSL'') = 0 \<and>
   internet_encoded (JStr ''Fiber optic'') = 1 \<and>
   internet_encoded (JStr ''No'') = 2"
  by (simp add: encoder_simps)

text \<open>
  C7: a value outside the vocabulary raises nothing and gets a default code. For
  \<^verbatim>\<open>contract_type\<close> and \<^verbatim>\<open>internet_service\<close> the default is the code of
  Month-to-Month and of Fiber optic. For \<^verbatim>\<open>payment_method\<close> the default is 0, which
  is the code of Bank transfer, while Electronic check has the code 2.
\<close>

theorem unknown_payment_method_default_code:
  "contract_encoded (JStr ''Quarterly'') = contract_encoded (JStr ''Month-to-Month'') \<and>
   internet_encoded (JStr ''Cable'') = internet_encoded (JStr ''Fiber optic'') \<and>
   payment_encoded (JStr ''PayPal'') = 0 \<and>
   payment_encoded (JStr ''Bank transfer'') = 0 \<and>
   payment_encoded (JStr ''Electronic check'') = 2 \<and>
   payment_encoded (JStr ''PayPal'') \<noteq> payment_encoded (JStr ''Electronic check'')"
  by (simp add: encoder_simps)

section \<open>Risk tiers\<close>

text \<open>
  C4: for a probability in [0, 1] the single-record scorer answers Low exactly on
  [0, 0.3), Medium exactly on [0.3, 0.7) and High exactly on [0.7, 1].
\<close>

theorem risk_level_thresholds:
  assumes "0 \<le> p" and "p \<le> 1"
  shows "(fst (risk_level p) = ''Low'' \<longleftrightarrow> p < 0.3) \<and>
         (fst (risk_level p) = ''Medium'' \<longleftrightarrow> 0.3 \<le> p \<and> p < 0.7) \<and>
         (fst (risk_level p) = ''High'' \<longleftrightarrow> 0.7 \<le> p \<and> p \<le> 1)"
  using assms by (simp add: risk_level_def)

text \<open>C4 at the two boundaries: 0.3 is Medium and 0.7 is High.\<close>

theorem risk_level_thresholds_witness:
  "(0::real) \<le> 0.3 \<and> (0.3::real) \<le> 1 \<and> fst (risk_level 0.3) = ''Medium'' \<and>
   (0::real) \<le> 0.7 \<and> (0.7::real) \<le> 1 \<and> fst (risk_level 0.7) = ''High''"
  using risk_level_thresholds [of "0.3"] risk_level_thresholds [of "0.7"] by simp

section \<open>Feature engineering\<close>

subsection \<open>Integer columns without overflow\<close>














lemma select_rows_map:
  "select_rows (length rs) (map (\<lambda>(name, f). (name, map f rs)) nfs)
   = map (\<lambda>r. map (\<lambda>(name, f). (name, f r)) nfs) rs"
  unfolding select_rows_def
  by (rule nth_equalityI) (auto simp: split_def)

lemma engineer_features_value:
  assumes "tenure r + 1 \<noteq> 0"
  shows "engineer_features r =
     Inr (feature_vector (tenure r) (monthly_charges r) (total_charges r)
            (real (contract_encoded (contract_type r)))
            (real (payment_encoded (payment_method r)))
            (real (internet_encoded (internet_service r)))
            (of_int (streaming_tv r)) (of_int (streaming_movies r))
            (of_int (tech_support r)) (of_int (online_security r)))"
  using assms by (simp add: engineer_features_def py_truediv_def Let_def feature_vector_def)







lemma batch_features_rows:
  assumes "set lookup_order \<subseteq> set (columns df)"
  shows "batch_features df = Inr (map (\<lambda>r.
       [(''tenure'', Some (num_value (csv_tenure r))),
        (''monthly_charges'', Some (num_value (csv_monthly_charges r))),
        (''total_charges'', Some (num_value (csv_total_charges r))),
        (''contract_encoded'', Some (real (class_index (label_encoder_fit (map csv_contract_type (rows df))) (csv_contract_type r)))),
        (''payment_encoded'', Some (real (class_index (label_encoder_fit (map csv_payment_method (rows df))) (csv_payment_method r)))),
        (''internet_encoded'', Some (real (class_index (label_encoder_fit (map csv_internet_service (rows df))) (csv_internet_service r)))),
        (''streaming_tv'', Some (num_value (csv_streaming_tv r))),
        (''streaming_movies'', Some (num_value (csv_streaming_movies r))),
        (''tech_support'', Some (num_value (csv_tech_support r))),
        (''online_security'', Some (num_value (csv_online_security r))),
        (''avg_monthly_charge'', num_truediv (csv_total_charges r) (add_one (csv_tenure r))),
        (''contract_value'', Some (num_value (num_mul (csv_monthly_charges r) (csv_tenure r)))),
        (''services_count'', Some (num_value (num_add (num_add (num_add (csv_streaming_tv r) (csv_streaming_movies r)) (csv_tech_support r)) (csv_online_security r))))]) (rows df))"
proof -
  let ?rs = "rows df"
  let ?nfs = "[(''tenure'', \<lambda>r. Some (num_value (csv_tenure r))),
        (''monthly_charges'', \<lambda>r. Some (num_value (csv_monthly_charges r))),
        (''total_charges'', \<lambda>r. Some (num_value (csv_total_charges r))),
        (''contract_encoded'', \<lambda>r. Some (real (class_index (label_encoder_fit (map csv_contract_type (rows df))) (csv_contract_type r)))),
        (''payment_encoded'', \<lambda>r. Some (real (class_index (label_encoder_fit (map csv_payment_method (rows df))) (csv_payment_method r)))),
        (''internet_encoded'', \<lambda>r. Some (real (class_index (label_encoder_fit (map csv_internet_service (rows df))) (csv_internet_service r)))),
        (''streaming_tv'', \<lambda>r. Some (num_value (csv_streaming_tv r))),
        (''streaming_movies'', \<lambda>r. Some (num_value (csv_streaming_movies r))),
        (''tech_support'', \<lambda>r. Some (num_value (csv_tech_support r))),
        (''online_security'', \<lambda>r. Some (num_value (csv_online_security r))),
        (''avg_monthly_charge'', \<lambda>r. num_truediv (csv_total_charges r) (add_one (csv_tenure r))),
        (''contract_value'', \<lambda>r. Some (num_value (num_mul (csv_monthly_charges r) (csv_tenure r)))),
        (''services_count'', \<lambda>r. Some (num_value (num_add (num_add (num_add (csv_streaming_tv r) (csv_streaming_movies r)) (csv_tech_support r)) (csv_online_security r))))]"
  have mem: "''total_charges'' \<in> set (columns df)" "''tenure'' \<in> set (columns df)"
    "''monthly_charges'' \<in> set (columns df)" "''streaming_tv'' \<in> set (columns df)"
    "''streaming_movies'' \<in> set (columns df)" "''tech_support'' \<in> set (columns df)"
    "''online_security'' \<in> set (columns df)" "''contract_type'' \<in> set (columns df)"
    "''payment_method'' \<in> set (columns df)" "''internet_service'' \<in> set (columns df)"
    using assms by (simp_all add: lookup_order_def)
  have "batch_features df = Inr (select_rows (length ?rs) (map (\<lambda>(name, f). (name, map f ?rs)) ?nfs))"
    unfolding batch_features_def getitem_def bind_result_def Let_def label_encoder_fit_transform_def
      as_floats_def
    by (simp add: mem map2_map_map o_def)
  also have "\<dots> = Inr (map (\<lambda>r. map (\<lambda>(name, f). (name, f r)) ?nfs) ?rs)"
    by (simp only: select_rows_map)
  finally show ?thesis by simp
qed

lemma sample_frame_complete: "set lookup_order \<subseteq> set (columns (sample_frame []))"
  by (simp add: lookup_order_def sample_frame_def)














section \<open>Missing columns in a batch\<close>

lemma first_missing_raises:
  assumes "filter (\<lambda>c. c \<notin> set (columns df)) lookup_order = c # cs"
  shows "batch_features df = Inl (KeyError c)"
  using assms
  by (simp add: lookup_order_def batch_features_def getitem_def bind_result_def Let_def
           split: if_splits)

text \<open>
  C9, amended: when the model is loaded and the upload lacks at least one required
  column, the whole call fails with status 400 and no rows, and its message is the name,
  between quotes, of one missing column: the first one in the order in which the
  columns are looked up.
\<close>

theorem missing_column_fails_batch:
  assumes "\<not> set lookup_order \<subseteq> set (columns df)"
  shows "\<exists>c cs. filter (\<lambda>c. c \<notin> set (columns df)) lookup_order = c # cs \<and>
           api_batch_predict (Some m) df = BatchFailed 400 (StrOf (KeyError c)) \<and>
           py_str (KeyError c) = Some (CHR 0x27 # c @ [CHR 0x27]) \<and>
           sublist c (CHR 0x27 # c @ [CHR 0x27])"
proof -
  from assms have "filter (\<lambda>c. c \<notin> set (columns df)) lookup_order \<noteq> []"
    by (auto simp: filter_empty_conv)
  then obtain c cs where f: "filter (\<lambda>c. c \<notin> set (columns df)) lookup_order = c # cs"
    by (auto simp: neq_Nil_conv)
  have "sublist c ([CHR 0x27] @ c @ [CHR 0x27])" by (rule sublist_appendI)
  then have "api_batch_predict (Some m) df = BatchFailed 400 (StrOf (KeyError c)) \<and>
           py_str (KeyError c) = Some (CHR 0x27 # c @ [CHR 0x27]) \<and>
           sublist c (CHR 0x27 # c @ [CHR 0x27])"
    by (simp add: api_batch_predict_def first_missing_raises [OF f])
  with f show ?thesis by blast
qed

text \<open>C9 on a table of three rows without the \<^verbatim>\<open>tenure\<close> column: the message names it.\<close>

theorem missing_column_fails_batch_witness:
  "\<not> set lookup_order \<subseteq> set (columns (sample_frame [''tenure''])) \<and>
   length (rows (sample_frame [''tenure''])) = 3 \<and>
   api_batch_predict (Some (constant_model 0.5)) (sample_frame [''tenure''])
     = BatchFailed 400 (StrOf (KeyError ''tenure'')) \<and>
   py_str (KeyError ''tenure'') = Some (CHR 0x27 # ''tenure'' @ [CHR 0x27])"
proof -
  have h: "\<not> set lookup_order \<subseteq> set (columns (sample_frame [''tenure'']))"
    by (simp add: sample_frame_def lookup_order_def)
  have f: "filter (\<lambda>c. c \<notin> set (columns (sample_frame [''tenure'']))) lookup_order = [''tenure'']"
    by (simp add: sample_frame_def lookup_order_def)
  from missing_column_fails_batch [OF h, of "constant_model 0.5"] f
  have "api_batch_predict (Some (constant_model 0.5)) (sample_frame [''tenure''])
     = BatchFailed 400 (StrOf (KeyError ''tenure''))"
    by auto
  with h show ?thesis by (simp add: sample_frame_def)
qed

text \<open>
  C9, as the specification states it, fails when several columns are missing: without
  \<^verbatim>\<open>tenure\<close> and \<^verbatim>\<open>total_charges\<close> the message names \<^verbatim>\<open>total_charges\<close> only.
\<close>

theorem two_missing_columns_one_named:
  "api_batch_predict (Some (constant_model 0.5)) (sample_frame [''tenure'', ''total_charges''])
     = BatchFailed 400 (StrOf (KeyError ''total_charges'')) \<and>
   py_str (KeyError ''total_charges'') = Some (CHR 0x27 # ''total_charges'' @ [CHR 0x27]) \<and>
   ''tenure'' \<in> set lookup_order \<and>
   ''tenure'' \<notin> set (columns (sample_frame [''tenure'', ''total_charges''])) \<and>
   \<not> sublist ''tenure'' (CHR 0x27 # ''total_charges'' @ [CHR 0x27])"
proof -
  have a: "\<not> sublist ''tenure'' (CHR 0x27 # ''total_charges'' @ [CHR 0x27])" by code_simp
  have h: "filter (\<lambda>c. c \<notin> set (columns (sample_frame [''tenure'', ''total_charges'']))) lookup_order
           = [''total_charges'', ''tenure'']"
    by (simp add: sample_frame_def lookup_order_def)
  have b: "''tenure'' \<notin> set (columns (sample_frame [''tenure'', ''total_charges'']))"
    by (simp add: sample_frame_def)
  have c: "''tenure'' \<in> set lookup_order" by (simp add: lookup_order_def)
  show ?thesis using a b c
    by (simp add: api_batch_predict_def first_missing_raises [OF h])
qed

section \<open>The reply of the single-record scorer\<close>

lemma extract_fields_empty: "extract_fields plain_builtins Map.empty = Inr default_request"
  by (simp add: extract_fields_def dict_get_def bind_result_def default_request_def)

lemma extract_fields_defaults_given:
  "extract_fields plain_builtins
     [''contract_type'' \<mapsto> JStr ''Month-to-Month'', ''tech_support'' \<mapsto> JInt 0]
   = Inr default_request"
  by (simp add: extract_fields_def dict_get_def bind_result_def default_request_def)

lemma engineer_features_default:
  "engineer_features default_request =
     Inr (feature_vector 0 0 0 (real (contract_encoded (JStr ''Month-to-Month'')))
            (real (payment_encoded (JStr ''Electronic check'')))
            (real (internet_encoded (JStr ''Fiber optic''))) 0 0 0 0)"
proof -
  have "tenure default_request + 1 \<noteq> 0" by (simp add: default_request_def)
  from engineer_features_value [OF this] show ?thesis by (simp add: default_request_def)
qed

lemma predict_one_constant: "predict_one (constant_model p) fv = Some p"
  by (simp add: predict_one_def constant_model_def)

lemma api_predict_scored:
  assumes "extract_fields B data = Inr r" and "engineer_features r = Inr fv"
    and "predict_one m fv = Some p"
  shows "fst (api_predict B (Some m) uid data d) =
     Scored \<lparr>churn_probability = round4 B p,
             churn_prediction = (if p > 0.5 then 1 else 0),
             risk = fst (risk_level p), color = snd (risk_level p),
             recommendations = get_recommendations p data\<rparr>"
  using assms by (simp add: api_predict_def Let_def)

text \<open>
  C10: once the model has given a probability, a failing insert into the predictions
  table changes nothing in the reply. The call answers with the probability, the
  prediction, the risk tier and the recommendations, the same reply as with a working
  database, and the failure is not reported.
\<close>

theorem db_failure_not_surfaced:
  assumes "extract_fields B data = Inr r" and "engineer_features r = Inr fv"
    and "predict_one m fv = Some p" and "db_fault d"
  shows "api_predict B (Some m) uid data d =
     (Scored \<lparr>churn_probability = round4 B p,
              churn_prediction = (if p > 0.5 then 1 else 0),
              risk = fst (risk_level p), color = snd (risk_level p),
              recommendations = get_recommendations p data\<rparr>, d) \<and>
     fst (api_predict B (Some m) uid data d)
       = fst (api_predict B (Some m) uid data (d\<lparr>db_fault := False\<rparr>))"
  using assms by (simp add: api_predict_def Let_def insert_prediction_def)

text \<open>C10 on the empty request, a model that answers 0.5 and a failing database.\<close>

theorem db_failure_not_surfaced_witness:
  "extract_fields plain_builtins Map.empty = Inr default_request \<and>
   engineer_features default_request =
     Inr (feature_vector 0 0 0 (real (contract_encoded (JStr ''Month-to-Month'')))
            (real (payment_encoded (JStr ''Electronic check'')))
            (real (internet_encoded (JStr ''Fiber optic''))) 0 0 0 0) \<and>
   predict_one (constant_model 0.5)
     (feature_vector 0 0 0 (real (contract_encoded (JStr ''Month-to-Month'')))
            (real (payment_encoded (JStr ''Electronic check'')))
            (real (internet_encoded (JStr ''Fiber optic''))) 0 0 0 0) = Some 0.5 \<and>
   db_fault faulty_db \<and>
   api_predict plain_builtins (Some (constant_model 0.5)) 7 Map.empty faulty_db =
     (Scored \<lparr>churn_probability = 0.5, churn_prediction = 0, risk = ''Medium'',
              color = ''orange'',
              recommendations = [MonitorClosely, SendReengagementEmail, OfferUpgradeIncentives]\<rparr>,
      faulty_db)"
proof -
  have h4: "db_fault faulty_db" by (simp add: faulty_db_def)
  note T = db_failure_not_surfaced [OF extract_fields_empty engineer_features_default
             predict_one_constant h4, of "0.5" 7]
  from T [THEN conjunct1]
  have "api_predict plain_builtins (Some (constant_model 0.5)) 7 Map.empty faulty_db =
     (Scored \<lparr>churn_probability = 0.5, churn_prediction = 0, risk = ''Medium'',
              color = ''orange'',
              recommendations = [MonitorClosely, SendReengagementEmail, OfferUpgradeIncentives]\<rparr>,
      faulty_db)"
    by (simp add: plain_builtins_def risk_level_def get_recommendations_def)
  with extract_fields_empty engineer_features_default predict_one_constant h4
  show ?thesis by (intro conjI) simp_all
qed

section \<open>Recommendations\<close>

text \<open>
  C5, as the specification states it, fails: 0.35 and 0.5 are both in the Medium tier
  and get different generic advice.
\<close>

theorem generic_advice_not_by_tier:
  "fst (risk_level 0.35) = ''Medium'' \<and> fst (risk_level 0.5) = ''Medium'' \<and>
   take 3 (get_recommendations 0.35 Map.empty)
     = [CustomerSatisfied, ContinueMonitoring, ConsiderReferral] \<and>
   take 3 (get_recommendations 0.5 Map.empty)
     = [MonitorClosely, SendReengagementEmail, OfferUpgradeIncentives] \<and>
   get_recommendations 0.35 Map.empty \<noteq> get_recommendations 0.5 Map.empty"
  by (simp add: risk_level_def get_recommendations_def)

lemma py_eq_zero_iff:
  "py_eq_zero x \<longleftrightarrow> x \<in> {Some (JInt 0), Some (JFloat 0), Some (JBool False)}"
proof (cases x)
  case None
  then show ?thesis by simp
next
  case (Some v)
  then show ?thesis by (cases v) auto
qed

lemma py_eq_str_iff: "py_eq_str x t \<longleftrightarrow> x = Some (JStr t)"
proof (cases x)
  case None
  then show ?thesis by simp
next
  case (Some v)
  then show ?thesis by (cases v) auto
qed

lemma extract_fields_contract_type:
  assumes "extract_fields B data = Inr r"
  shows "contract_type r = dict_get data ''contract_type'' (JStr ''Month-to-Month'')"
  using assms
  by (auto simp: extract_fields_def bind_result_def split: sum.splits)

lemma extract_fields_tech_support:
  assumes "extract_fields B data = Inr r"
  shows "py_int B (dict_get data ''tech_support'' (JInt 0)) = Inr (tech_support r)"
  using assms
  by (auto simp: extract_fields_def bind_result_def split: sum.splits)

text \<open>
  C5, amended: the three generic recommendations are determined by the band of the
  probability, where the bands are \<open>p \<le> 0.4\<close>, \<open>0.4 < p \<le> 0.7\<close> and \<open>0.7 < p\<close>
  (not the risk tiers). Nothing but the two conditional recommendations follows them.
  For a request that gives \<^verbatim>\<open>contract_type\<close>, the advice to take an annual contract
  is there exactly when the contract type is Month-to-Month; for a request that gives
  \<^verbatim>\<open>tech_support\<close> as an integer or a boolean, the advice on tech support is there
  exactly when the flag is 0.
\<close>

theorem recommendations_by_probability_bands:
  "(p \<le> 0.4 \<longrightarrow> take 3 (get_recommendations p data)
       = [CustomerSatisfied, ContinueMonitoring, ConsiderReferral]) \<and>
   (0.4 < p \<and> p \<le> 0.7 \<longrightarrow> take 3 (get_recommendations p data)
       = [MonitorClosely, SendReengagementEmail, OfferUpgradeIncentives]) \<and>
   (0.7 < p \<longrightarrow> take 3 (get_recommendations p data)
       = [HighChurnRisk, OfferLoyaltyDiscount, SchedulePersonalCall]) \<and>
   set (drop 3 (get_recommendations p data)) \<subseteq> {EncourageAnnualContract, PromoteTechSupport} \<and>
   (extract_fields B data = Inr r \<and> data ''contract_type'' = Some ct \<longrightarrow>
      (EncourageAnnualContract \<in> set (get_recommendations p data)
         \<longleftrightarrow> contract_type r = JStr ''Month-to-Month'')) \<and>
   (extract_fields B data = Inr r \<and>
    (data ''tech_support'' = Some (JInt n) \<or> data ''tech_support'' = Some (JBool b)) \<longrightarrow>
      (PromoteTechSupport \<in> set (get_recommendations p data) \<longleftrightarrow> tech_support r = 0))"
proof (intro conjI impI)
  show "set (drop 3 (get_recommendations p data)) \<subseteq> {EncourageAnnualContract, PromoteTechSupport}"
    by (auto simp: get_recommendations_def)
next
  assume a: "extract_fields B data = Inr r \<and> data ''contract_type'' = Some ct"
  then have "contract_type r = ct"
    using extract_fields_contract_type [of B data r] by (simp add: dict_get_def)
  with a show "EncourageAnnualContract \<in> set (get_recommendations p data)
         \<longleftrightarrow> contract_type r = JStr ''Month-to-Month''"
    by (auto simp: get_recommendations_def py_eq_str_iff)
next
  assume a: "extract_fields B data = Inr r \<and>
    (data ''tech_support'' = Some (JInt n) \<or> data ''tech_support'' = Some (JBool b))"
  then have e: "py_int B (dict_get data ''tech_support'' (JInt 0)) = Inr (tech_support r)"
    using extract_fields_tech_support [of B data r] by simp
  from a have "data ''tech_support'' = Some (JInt n) \<or> data ''tech_support'' = Some (JBool b)"
    by simp
  then show "PromoteTechSupport \<in> set (get_recommendations p data) \<longleftrightarrow> tech_support r = 0"
  proof
    assume d: "data ''tech_support'' = Some (JInt n)"
    with e have "tech_support r = n" by (simp add: dict_get_def)
    with d show ?thesis by (auto simp: get_recommendations_def py_eq_zero_iff)
  next
    assume d: "data ''tech_support'' = Some (JBool b)"
    with e have "tech_support r = (if b then 1 else 0)" by (simp add: dict_get_def)
    with d show ?thesis by (auto simp: get_recommendations_def py_eq_zero_iff)
  qed
qed (simp_all add: get_recommendations_def)

text \<open>C5, amended, at one probability of each band.\<close>

theorem recommendations_by_probability_bands_witness:
  "(0.35::real) \<le> 0.4 \<and>
   take 3 (get_recommendations 0.35
             [''contract_type'' \<mapsto> JStr ''Month-to-Month'', ''tech_support'' \<mapsto> JInt 0])
     = [CustomerSatisfied, ContinueMonitoring, ConsiderReferral] \<and>
   (0.4::real) < 0.7 \<and> (0.7::real) \<le> 0.7 \<and>
   take 3 (get_recommendations 0.7
             [''contract_type'' \<mapsto> JStr ''Month-to-Month'', ''tech_support'' \<mapsto> JInt 0])
     = [MonitorClosely, SendReengagementEmail, OfferUpgradeIncentives] \<and>
   (0.7::real) < 0.9 \<and>
   take 3 (get_recommendations 0.9
             [''contract_type'' \<mapsto> JStr ''Month-to-Month'', ''tech_support'' \<mapsto> JInt 0])
     = [HighChurnRisk, OfferLoyaltyDiscount, SchedulePersonalCall] \<and>
   extract_fields plain_builtins
     [''contract_type'' \<mapsto> JStr ''Month-to-Month'', ''tech_support'' \<mapsto> JInt 0]
     = Inr default_request \<and>
   [''contract_type'' \<mapsto> JStr ''Month-to-Month'', ''tech_support'' \<mapsto> JInt 0] ''contract_type''
     = Some (JStr ''Month-to-Month'') \<and>
   [''contract_type'' \<mapsto> JStr ''Month-to-Month'', ''tech_support'' \<mapsto> JInt 0] ''tech_support''
     = Some (JInt 0) \<and>
   EncourageAnnualContract \<in> set (get_recommendations 0.9
             [''contract_type'' \<mapsto> JStr ''Month-to-Month'', ''tech_support'' \<mapsto> JInt 0]) \<and>
   PromoteTechSupport \<in> set (get_recommendations 0.9
             [''contract_type'' \<mapsto> JStr ''Month-to-Month'', ''tech_support'' \<mapsto> JInt 0])"
proof -
  let ?d = "[''contract_type'' \<mapsto> JStr ''Month-to-Month'', ''tech_support'' \<mapsto> JInt 0]"
  have c: "?d ''contract_type'' = Some (JStr ''Month-to-Month'')" by simp
  have t: "?d ''tech_support'' = Some (JInt 0)" by simp
  have dr: "contract_type default_request = JStr ''Month-to-Month''"
    "tech_support default_request = 0"
    by (simp_all add: default_request_def)
  note T1 = recommendations_by_probability_bands [of "0.35" ?d]
  note T2 = recommendations_by_probability_bands [of "0.7" ?d]
  note T3 = recommendations_by_probability_bands
              [of "0.9" ?d plain_builtins default_request "JStr ''Month-to-Month''" 0]
  have a: "take 3 (get_recommendations 0.35 ?d)
     = [CustomerSatisfied, ContinueMonitoring, ConsiderReferral]"
    using T1 [THEN conjunct1] by simp
  have b: "take 3 (get_recommendations 0.7 ?d)
     = [MonitorClosely, SendReengagementEmail, OfferUpgradeIncentives]"
    using T2 [THEN conjunct2, THEN conjunct1] by simp
  have h: "take 3 (get_recommendations 0.9 ?d)
     = [HighChurnRisk, OfferLoyaltyDiscount, SchedulePersonalCall]"
    using T3 [THEN conjunct2, THEN conjunct2, THEN conjunct1] by simp
  have x: "extract_fields plain_builtins ?d = Inr default_request"
    by (rule extract_fields_defaults_given)
  have e: "EncourageAnnualContract \<in> set (get_recommendations 0.9 ?d)"
    using mp [OF T3 [THEN conjunct2, THEN conjunct2, THEN conjunct2, THEN conjunct2,
                     THEN conjunct1] conjI [OF x c]] dr
    by simp
  have f: "PromoteTechSupport \<in> set (get_recommendations 0.9 ?d)"
    using mp [OF T3 [THEN conjunct2, THEN conjunct2, THEN conjunct2, THEN conjunct2,
                     THEN conjunct2] conjI [OF x disjI1 [OF t]]] dr
    by simp
  from a b h e f c t extract_fields_defaults_given show ?thesis
    by (intro conjI) simp_all
qed

text \<open>
  C6: the empty request and the request that gives \<^verbatim>\<open>contract_type\<close> and
  \<^verbatim>\<open>tech_support\<close> their documented defaults are read into the same fields, so they
  get the same probability, prediction and tier; but only the second one gets the two
  conditional recommendations, because \<open>get_recommendations\<close> reads the request
  without the defaults.
\<close>

theorem omitted_field_changes_recommendations:
  "extract_fields plain_builtins Map.empty
     = extract_fields plain_builtins
         [''contract_type'' \<mapsto> JStr ''Month-to-Month'', ''tech_support'' \<mapsto> JInt 0] \<and>
   fst (api_predict plain_builtins (Some (constant_model 0.5)) 7 Map.empty healthy_db) =
     Scored \<lparr>churn_probability = 0.5, churn_prediction = 0, risk = ''Medium'',
             color = ''orange'',
             recommendations = [MonitorClosely, SendReengagementEmail, OfferUpgradeIncentives]\<rparr> \<and>
   fst (api_predict plain_builtins (Some (constant_model 0.5)) 7
          [''contract_type'' \<mapsto> JStr ''Month-to-Month'', ''tech_support'' \<mapsto> JInt 0] healthy_db) =
     Scored \<lparr>churn_probability = 0.5, churn_prediction = 0, risk = ''Medium'',
             color = ''orange'',
             recommendations = [MonitorClosely, SendReengagementEmail, OfferUpgradeIncentives,
                                EncourageAnnualContract, PromoteTechSupport]\<rparr>"
proof -
  have r: "round4 plain_builtins x = x" for x by (simp add: plain_builtins_def)
  have a: "fst (api_predict plain_builtins (Some (constant_model 0.5)) 7 Map.empty healthy_db) =
     Scored \<lparr>churn_probability = 0.5, churn_prediction = 0, risk = ''Medium'',
             color = ''orange'',
             recommendations = [MonitorClosely, SendReengagementEmail, OfferUpgradeIncentives]\<rparr>"
    unfolding api_predict_scored [OF extract_fields_empty engineer_features_default
             predict_one_constant]
    by (simp add: r risk_level_def get_recommendations_def)
  have b: "fst (api_predict plain_builtins (Some (constant_model 0.5)) 7
          [''contract_type'' \<mapsto> JStr ''Month-to-Month'', ''tech_support'' \<mapsto> JInt 0] healthy_db) =
     Scored \<lparr>churn_probability = 0.5, churn_prediction = 0, risk = ''Medium'',
             color = ''orange'',
             recommendations = [MonitorClosely, SendReengagementEmail, OfferUpgradeIncentives,
                                EncourageAnnualContract, PromoteTechSupport]\<rparr>"
    unfolding api_predict_scored [OF extract_fields_defaults_given engineer_features_default
             predict_one_constant]
    by (simp add: r risk_level_def get_recommendations_def)
  have c: "extract_fields plain_builtins Map.empty
     = extract_fields plain_builtins
         [''contract_type'' \<mapsto> JStr ''Month-to-Month'', ''tech_support'' \<mapsto> JInt 0]"
    by (simp only: extract_fields_empty extract_fields_defaults_given)
  from a b c show ?thesis by (intro conjI)
qed

section \<open>Risk tiers of a batch\<close>

text \<open>
  C2: the tier of a batch row is computed by \<^verbatim>\<open>pandas.cut\<close>, whose intervals are
  closed on the right. On a table of three rows with the probabilities 0, 0.3 and 0.7
  the rows get no tier, Low and Medium, where the single-record scorer answers Low,
  Medium and High.
\<close>

theorem batch_tier_differs_at_boundaries:
  "(case api_batch_predict (Some (listed_model [0, 0.3, 0.7])) (sample_frame []) of
      BatchScored s rs \<Rightarrow>
        map (\<lambda>x. (res_churn_probability x, res_risk_level x,
                  fst (risk_level (res_churn_probability x)))) rs
    | BatchFailed c e \<Rightarrow> [])
   = [(0, None, ''Low''), (0.3, Some ''Low'', ''Medium''), (0.7, Some ''Medium'', ''High'')]"
proof -
  have "\<exists>x1 x2 x3. batch_features (sample_frame []) = Inr [x1, x2, x3]"
    unfolding batch_features_rows [OF sample_frame_complete]
    by (simp add: sample_frame_def)
  then obtain x1 x2 x3 where "batch_features (sample_frame []) = Inr [x1, x2, x3]"
    by blast
  then show ?thesis
    by (simp add: api_batch_predict_def listed_model_def sample_frame_def
          batch_risk_level_def risk_level_def)
qed

end
